theory Spec2Isabelle
  imports Complex_Main "HOL-Library.AList"
begin

section \<open>Errors\<close>

text \<open>
  Every exception class the modelled functions throw or let through is a constructor of
  \<open>jserror\<close>; a function that may throw returns \<open>jserror + 'a\<close>, with \<open>Inl\<close> the
  thrown error. \<open>HttpError\<close> carries the status code. \<open>OtherError\<close> stands for any error
  class the modelled code neither throws itself nor tests with \<open>instanceof\<close>.
\<close>

datatype jserror =
    BrokenLogStream
  | WrongObjectType
  | HttpError int
  | ServerSessionError
  | AuthenticationError
  | TypeError
  | RangeError
  | SyntaxError
  | AssertionError
  | InvalidCoinUri
  | DocumentFetchError
  | OtherError string

text \<open>Sequencing of fallible steps: the first thrown error ends the computation.\<close>

fun bindE :: "jserror + 'a \<Rightarrow> ('a \<Rightarrow> jserror + 'b) \<Rightarrow> jserror + 'b" where
  "bindE (Inl e) f = Inl e"
| "bindE (Inr x) f = f x"

section \<open>JavaScript numbers\<close>

text \<open>
  A \<open>number\<close> is an IEEE 754 binary64 value. A finite one is modelled by the rational it
  denotes, so every arithmetic operation is the exact operation followed by \<open>rd\<close>, the
  rounding to the nearest binary64 value (ties to even, gradual underflow below
  \<open>2^-1022\<close>, overflow to infinity once the rounded magnitude reaches \<open>2^1024\<close>, that
  is once its binary logarithm is at least 1024). The sign of zero is not represented: none of the
  modelled functions can tell \<open>-0\<close> from \<open>+0\<close> on the inputs they accept.
\<close>

datatype jsnum = NaN | PInf | NInf | Fin rat

text \<open>The number of binary digits of a positive integer.\<close>

function bitlen :: "int \<Rightarrow> int" where
  "bitlen n = (if n \<le> 0 then 0 else 1 + bitlen (n div 2))"
  by pat_completeness auto
termination
  by (relation "measure nat") auto

declare bitlen.simps [simp del]

definition pow2 :: "int \<Rightarrow> rat" where
  "pow2 q = (if 0 \<le> q then of_int (2 ^ nat q) else 1 / of_int (2 ^ nat (- q)))"

text \<open>\<open>ilog2 a\<close> is \<open>\<lfloor>log\<^sub>2 a\<rfloor>\<close> for a positive rational \<open>a\<close>.\<close>

definition ilog2 :: "rat \<Rightarrow> int" where
  "ilog2 a =
     (if 1 \<le> a then bitlen \<lfloor>a\<rfloor> - 1
      else
        let b = 1 / a; k = bitlen \<lfloor>b\<rfloor> - 1
        in if b = pow2 k then - k else - k - 1)"

definition round_half_even :: "rat \<Rightarrow> int" where
  "round_half_even y =
     (let f = \<lfloor>y\<rfloor>; r = y - of_int f
      in if r < 1 / 2 then f else if 1 / 2 < r then f + 1 else if even f then f else f + 1)"

definition rd :: "rat \<Rightarrow> jsnum" where
  "rd x =
     (if x = 0 then Fin 0
      else
        let a = \<bar>x\<bar>;
            q = max (ilog2 a - 52) (- 1074);
            r = of_int (round_half_even (a / pow2 q)) * pow2 q
        in if 1024 \<le> ilog2 r then (if 0 < x then PInf else NInf)
           else Fin (if 0 < x then r else - r))"

fun fneg :: "jsnum \<Rightarrow> jsnum" where
  "fneg NaN = NaN"
| "fneg PInf = NInf"
| "fneg NInf = PInf"
| "fneg (Fin x) = Fin (- x)"

text \<open>An infinity of the sign of \<open>s\<close>.\<close>

definition inf_of_sign :: "rat \<Rightarrow> jsnum" where
  "inf_of_sign s = (if 0 \<le> s then PInf else NInf)"

fun sign_of :: "jsnum \<Rightarrow> rat" where
  "sign_of PInf = 1"
| "sign_of NInf = - 1"
| "sign_of (Fin x) = sgn x"
| "sign_of NaN = 0"

text \<open>\<open>x * y\<close>: \<open>NaN\<close> is contagious, infinity times zero is \<open>NaN\<close>.\<close>

fun fmul :: "jsnum \<Rightarrow> jsnum \<Rightarrow> jsnum" where
  "fmul NaN _ = NaN"
| "fmul _ NaN = NaN"
| "fmul (Fin x) (Fin y) = rd (x * y)"
| "fmul x y =
     (if sign_of x * sign_of y = 0 then NaN else inf_of_sign (sign_of x * sign_of y))"

text \<open>
  \<open>x / y\<close>. A zero divisor is taken as \<open>+0\<close>; the modelled code only divides by a
  divisor it has first raised to at least \<open>1e-99\<close>.
\<close>

fun fdiv :: "jsnum \<Rightarrow> jsnum \<Rightarrow> jsnum" where
  "fdiv NaN _ = NaN"
| "fdiv _ NaN = NaN"
| "fdiv (Fin x) (Fin y) =
     (if y = 0 then (if x = 0 then NaN else inf_of_sign x) else rd (x / y))"
| "fdiv (Fin x) _ = Fin 0"
| "fdiv x (Fin y) = inf_of_sign (sign_of x * (if y < 0 then - 1 else 1))"
| "fdiv _ _ = NaN"

text \<open>\<open>x + y\<close> and \<open>x - y\<close>.\<close>

fun fadd :: "jsnum \<Rightarrow> jsnum \<Rightarrow> jsnum" where
  "fadd NaN _ = NaN"
| "fadd _ NaN = NaN"
| "fadd (Fin x) (Fin y) = rd (x + y)"
| "fadd (Fin x) y = y"
| "fadd x (Fin y) = x"
| "fadd x y = (if x = y then x else NaN)"

definition fsub :: "jsnum \<Rightarrow> jsnum \<Rightarrow> jsnum" where
  "fsub x y = fadd x (fneg y)"

text \<open>The comparison \<open>x >= y\<close>: false as soon as one side is \<open>NaN\<close>.\<close>

fun fge :: "jsnum \<Rightarrow> jsnum \<Rightarrow> bool" where
  "fge NaN _ = False"
| "fge _ NaN = False"
| "fge PInf _ = True"
| "fge _ NInf = True"
| "fge NInf _ = False"
| "fge _ PInf = False"
| "fge (Fin x) (Fin y) = (y \<le> x)"

text \<open>\<open>Math.max\<close>, \<open>Math.min\<close> of two numbers, \<open>Math.abs\<close>, \<open>Math.ceil\<close>, \<open>Math.round\<close>
  (to the nearest integer, a tie towards \<open>+\<infinity>\<close>) and \<open>Number.isFinite\<close>.\<close>

fun Math_max :: "jsnum \<Rightarrow> jsnum \<Rightarrow> jsnum" where
  "Math_max NaN _ = NaN"
| "Math_max _ NaN = NaN"
| "Math_max x y = (if fge x y then x else y)"

fun Math_min :: "jsnum \<Rightarrow> jsnum \<Rightarrow> jsnum" where
  "Math_min NaN _ = NaN"
| "Math_min _ NaN = NaN"
| "Math_min x y = (if fge x y then y else x)"

fun Math_abs :: "jsnum \<Rightarrow> jsnum" where
  "Math_abs NaN = NaN"
| "Math_abs PInf = PInf"
| "Math_abs NInf = PInf"
| "Math_abs (Fin x) = Fin \<bar>x\<bar>"

fun Math_ceil :: "jsnum \<Rightarrow> jsnum" where
  "Math_ceil (Fin x) = Fin (of_int \<lceil>x\<rceil>)"
| "Math_ceil x = x"

fun Math_round :: "jsnum \<Rightarrow> jsnum" where
  "Math_round (Fin x) = Fin (of_int \<lfloor>x + 1 / 2\<rfloor>)"
| "Math_round x = x"

fun isFinite :: "jsnum \<Rightarrow> bool" where
  "isFinite (Fin x) = True"
| "isFinite _ = False"

text \<open>\<open>BigInt(x)\<close> of a number: a \<open>RangeError\<close> unless \<open>x\<close> is an integer.\<close>

fun BigInt_of_number :: "jsnum \<Rightarrow> jserror + int" where
  "BigInt_of_number (Fin x) = (if of_int \<lfloor>x\<rfloor> = x then Inr \<lfloor>x\<rfloor> else Inl RangeError)"
| "BigInt_of_number _ = Inl RangeError"

text \<open>\<open>Number(n)\<close> of a bigint: the nearest binary64 value.\<close>

definition Number_of_bigint :: "int \<Rightarrow> jsnum" where
  "Number_of_bigint n = rd (of_int n)"

section \<open>JavaScript strings and values\<close>

text \<open>
  A string is a list of characters; the modelled code only inspects ASCII characters
  (digits, signs, the decimal point, \<open>e\<close>, white space), so a character is a byte.
\<close>

definition isWS :: "char \<Rightarrow> bool" where
  "isWS c = (of_char c \<in> set [9, 10, 11, 12, 13, 32 :: nat])"

definition trimWS :: "string \<Rightarrow> string" where
  "trimWS s = rev (dropWhile isWS (rev (dropWhile isWS s)))"

definition isDigit :: "char \<Rightarrow> bool" where
  "isDigit c = (48 \<le> (of_char c :: nat) \<and> (of_char c :: nat) \<le> 57)"

text \<open>The value of a digit in a radix up to 16; \<open>None\<close> for any other character.\<close>

definition digitVal :: "char \<Rightarrow> int option" where
  "digitVal c =
     (let n = (of_char c :: int) in
      if 48 \<le> n \<and> n \<le> 57 then Some (n - 48)
      else if 97 \<le> n \<and> n \<le> 102 then Some (n - 87)
      else if 65 \<le> n \<and> n \<le> 70 then Some (n - 55)
      else None)"

fun radixVal :: "int \<Rightarrow> int \<Rightarrow> string \<Rightarrow> int option" where
  "radixVal b acc [] = Some acc"
| "radixVal b acc (c # cs) =
     (case digitVal c of
        None \<Rightarrow> None
      | Some d \<Rightarrow> if d < b then radixVal b (acc * b + d) cs else None)"

text \<open>The value of a non-empty digit string in radix \<open>b\<close>.\<close>

definition parseRadix :: "int \<Rightarrow> string \<Rightarrow> int option" where
  "parseRadix b s = (if s = [] then None else radixVal b 0 s)"

definition pow10 :: "int \<Rightarrow> rat" where
  "pow10 q = (if 0 \<le> q then of_int (10 ^ nat q) else 1 / of_int (10 ^ nat (- q)))"

text \<open>\<open>ExponentPart\<close>, optional: \<open>e\<close> or \<open>E\<close>, an optional sign, one digit or more.\<close>

definition parseExponent :: "string \<Rightarrow> int option" where
  "parseExponent r =
     (case r of
        [] \<Rightarrow> Some 0
      | c # t \<Rightarrow>
          if c = CHR ''e'' \<or> c = CHR ''E'' then
            (case t of
               [] \<Rightarrow> None
             | d # u \<Rightarrow>
                 if d = CHR ''+'' then parseRadix 10 u
                 else if d = CHR ''-'' then map_option uminus (parseRadix 10 u)
                 else parseRadix 10 t)
          else None)"

text \<open>
  \<open>StrUnsignedDecimalLiteral\<close>: \<open>Infinity\<close>, or digits with an optional fraction and an
  optional exponent, with a digit at least before or after the point. \<open>None\<close> is a
  string outside the grammar. The value is the exact decimal value, rounded once.
\<close>

definition parseUnsignedDecimal :: "string \<Rightarrow> jsnum option" where
  "parseUnsignedDecimal s =
     (if s = ''Infinity'' then Some PInf
      else
        let ip = takeWhile isDigit s;
            r1 = dropWhile isDigit s;
            fp = (case r1 of
                    [] \<Rightarrow> []
                  | c # t \<Rightarrow> if c = CHR ''.'' then takeWhile isDigit t else []);
            r2 = (case r1 of
                    [] \<Rightarrow> []
                  | c # t \<Rightarrow> if c = CHR ''.'' then dropWhile isDigit t else r1)
        in if ip = [] \<and> fp = [] then None
           else
             (case (parseRadix 10 (ip @ fp), parseExponent r2) of
                (Some m, Some ex) \<Rightarrow> Some (rd (of_int m * pow10 (ex - int (length fp))))
              | _ \<Rightarrow> None))"

text \<open>
  \<open>Number(s)\<close> of a string (the \<open>StringToNumber\<close> of the language): white space is
  trimmed, the empty string is \<open>0\<close>, \<open>0x\<close>, \<open>0o\<close> and \<open>0b\<close> introduce unsigned integers,
  anything outside the grammar is \<open>NaN\<close>.
\<close>

definition Number_str :: "string \<Rightarrow> jsnum" where
  "Number_str s =
     (let t = trimWS s in
      if t = [] then Fin 0
      else if take 2 t = ''0x'' \<or> take 2 t = ''0X'' then
        (case parseRadix 16 (drop 2 t) of None \<Rightarrow> NaN | Some n \<Rightarrow> rd (of_int n))
      else if take 2 t = ''0o'' \<or> take 2 t = ''0O'' then
        (case parseRadix 8 (drop 2 t) of None \<Rightarrow> NaN | Some n \<Rightarrow> rd (of_int n))
      else if take 2 t = ''0b'' \<or> take 2 t = ''0B'' then
        (case parseRadix 2 (drop 2 t) of None \<Rightarrow> NaN | Some n \<Rightarrow> rd (of_int n))
      else
        (case (if hd t = CHR ''+'' then parseUnsignedDecimal (tl t)
               else if hd t = CHR ''-'' then map_option fneg (parseUnsignedDecimal (tl t))
               else parseUnsignedDecimal t) of
           None \<Rightarrow> NaN
         | Some x \<Rightarrow> x))"

text \<open>The decimal digits of a natural number and of an integer.\<close>

function string_of_nat :: "nat \<Rightarrow> string" where
  "string_of_nat n =
     (if n < 10 then [char_of (48 + n)]
      else string_of_nat (n div 10) @ [char_of (48 + n mod 10)])"
  by pat_completeness auto
termination
  by (relation "measure id") auto

declare string_of_nat.simps [simp del]

definition string_of_int :: "int \<Rightarrow> string" where
  "string_of_int i = (if i < 0 then CHR ''-'' # string_of_nat (nat (- i)) else string_of_nat (nat i))"

text \<open>
  A value as the JSON parser of the application delivers it (an integer literal without a
  decimal point is read as a \<open>bigint\<close>) or as the mapper builds it. An object is the list
  of its own properties in insertion order.
\<close>

datatype jsval =
    JUndefined
  | JNull
  | JBool bool
  | JNum jsnum
  | JBig int
  | JStr string
  | JObj "(string \<times> jsval) list"
  | JArr "jsval list"

fun joinWith :: "string \<Rightarrow> string list \<Rightarrow> string" where
  "joinWith sep [] = []"
| "joinWith sep [x] = x"
| "joinWith sep (x # y # ys) = x @ sep @ joinWith sep (y # ys)"

text \<open>
  \<open>String(v)\<close>. The decimal rendering of a \<open>number\<close> (\<open>Number::toString\<close>) is a parameter
  \<open>nts\<close>: every statement below holds for any such rendering.
\<close>

fun ToString :: "(jsnum \<Rightarrow> string) \<Rightarrow> jsval \<Rightarrow> string" where
  "ToString nts JUndefined = ''undefined''"
| "ToString nts JNull = ''null''"
| "ToString nts (JBool b) = (if b then ''true'' else ''false'')"
| "ToString nts (JNum x) = nts x"
| "ToString nts (JBig i) = string_of_int i"
| "ToString nts (JStr s) = s"
| "ToString nts (JObj kvs) = ''[object Object]''"
| "ToString nts (JArr xs) =
     joinWith '','' (map (\<lambda>v. if v = JUndefined \<or> v = JNull then [] else ToString nts v) xs)"

text \<open>\<open>Number(v)\<close>: an object or array is converted through its string.\<close>

fun Number_val :: "(jsnum \<Rightarrow> string) \<Rightarrow> jsval \<Rightarrow> jsnum" where
  "Number_val nts JUndefined = NaN"
| "Number_val nts JNull = Fin 0"
| "Number_val nts (JBool b) = Fin (if b then 1 else 0)"
| "Number_val nts (JNum x) = x"
| "Number_val nts (JBig i) = Number_of_bigint i"
| "Number_val nts (JStr s) = Number_str s"
| "Number_val nts v = Number_str (ToString nts v)"

section \<open>Amount formatting: \<open>format-amounts.ts\<close>\<close>

definition MAX_INT64 :: int where
  "MAX_INT64 = 2 ^ 63 - 1"

definition MIN_INT64 :: int where
  "MIN_INT64 = - MAX_INT64 - 1"

text \<open>The literal \<open>1e-99\<close>.\<close>

definition MIN_AMOUNT_DIVISOR :: jsnum where
  "MIN_AMOUNT_DIVISOR = rd (pow10 (- 99))"

text \<open>An argument of type \<open>string | number\<close>, and one of type \<open>number | bigint\<close>.\<close>

datatype str_or_num = Str string | Num jsnum

datatype num_or_big = NumV jsnum | BigV int

fun Number_sn :: "str_or_num \<Rightarrow> jsnum" where
  "Number_sn (Str s) = Number_str s"
| "Number_sn (Num x) = x"

text \<open>
  \<open>assert\<close> is the application's global helper; it throws when its argument is false,
  modelled as \<open>AssertionError\<close>.
\<close>

definition stringToAmount :: "str_or_num \<Rightarrow> jsnum \<Rightarrow> jserror + int" where
  "stringToAmount s amountDivisor =
     (if \<not> fge amountDivisor (Fin 0) then Inl AssertionError
      else
        let amountDivisor' = Math_max amountDivisor MIN_AMOUNT_DIVISOR in
        bindE (BigInt_of_number (Math_round (fmul (Number_sn s) amountDivisor')))
          (\<lambda>amount.
             if amount \<le> MIN_INT64 then Inr MIN_INT64
             else if amount \<ge> MAX_INT64 then Inr MAX_INT64
             else Inr amount))"

text \<open>
  The built-ins of the platform that are not given a definition here are parameters:
  \<open>Number::toString\<close> (used by \<open>toFixed\<close> from \<open>1e21\<close> on and by \<open>String\<close>),
  \<open>Math.log10\<close>, \<open>Number.prototype.toPrecision\<close>, and \<open>newURL rel base\<close> for
  \<open>new URL(rel, base).href\<close>, which throws on a malformed URL.
\<close>

record jsenv =
  numToString :: "jsnum \<Rightarrow> string"
  Math_log10 :: "jsnum \<Rightarrow> jsnum"
  toPrecision :: "jsnum \<Rightarrow> jsnum \<Rightarrow> jserror + string"
  newURL :: "string \<Rightarrow> string \<Rightarrow> jserror + string"

text \<open>\<open>ToIntegerOrInfinity\<close> of a finite number: truncation towards zero.\<close>

definition trunc :: "rat \<Rightarrow> int" where
  "trunc x = (if 0 \<le> x then \<lfloor>x\<rfloor> else \<lceil>x\<rceil>)"

text \<open>
  The digits \<open>toFixed\<close> produces for a finite \<open>x\<close> below \<open>1e21\<close> in magnitude and \<open>f\<close>
  fraction digits: the integer \<open>n\<close> nearest to \<open>\<bar>x\<bar> * 10^f\<close> (the larger of two), padded
  with zeros to \<open>f + 1\<close> digits, the point before the last \<open>f\<close>, a minus sign when
  \<open>x < 0\<close>.
\<close>

definition fixedDigits :: "rat \<Rightarrow> nat \<Rightarrow> string" where
  "fixedDigits x f =
     (let n = \<lfloor>\<bar>x\<bar> * 10 ^ f + 1 / 2\<rfloor>;
          m = string_of_nat (nat n);
          m' = (if f \<noteq> 0 then
                  (let m2 = (if length m \<le> f then replicate (f + 1 - length m) CHR ''0'' @ m
                             else m);
                       k = length m2
                   in take (k - f) m2 @ ''.'' @ drop (k - f) m2)
                else m)
      in (if x < 0 then ''-'' else []) @ m')"

definition toFixed :: "jsenv \<Rightarrow> jsnum \<Rightarrow> jsnum \<Rightarrow> jserror + string" where
  "toFixed env v fractionDigits =
     (case fractionDigits of
        PInf \<Rightarrow> Inl RangeError
      | NInf \<Rightarrow> Inl RangeError
      | _ \<Rightarrow>
          let f = (case fractionDigits of Fin q \<Rightarrow> trunc q | _ \<Rightarrow> 0) in
          if f < 0 \<or> 100 < f then Inl RangeError
          else
            (case v of
               NaN \<Rightarrow> Inr ''NaN''
             | PInf \<Rightarrow> Inr ''Infinity''
             | NInf \<Rightarrow> Inr ''-Infinity''
             | Fin x \<Rightarrow>
                 if 10 ^ 21 \<le> \<bar>x\<bar> then Inr (numToString env v)
                 else Inr (fixedDigits x (nat f))))"

definition toLowerCase :: "string \<Rightarrow> string" where
  "toLowerCase s =
     map (\<lambda>c. if 65 \<le> (of_char c :: nat) \<and> (of_char c :: nat) \<le> 90
               then char_of ((of_char c :: nat) + 32) else c) s"

text \<open>\<open>s.split(c)\<close> for a one-character separator: the pieces between the separators.\<close>

fun splitOn :: "char \<Rightarrow> string \<Rightarrow> string list" where
  "splitOn c [] = [[]]"
| "splitOn c (x # xs) =
     (if x = c then [] # splitOn c xs
      else (case splitOn c xs of
              [] \<Rightarrow> [[x]]
            | p # ps \<Rightarrow> (x # p) # ps))"

text \<open>\<open>s.indexOf(c)\<close>: \<open>None\<close> is \<open>-1\<close>.\<close>

fun indexOf :: "char \<Rightarrow> string \<Rightarrow> nat option" where
  "indexOf c [] = None"
| "indexOf c (x # xs) = (if x = c then Some 0 else map_option Suc (indexOf c xs))"

definition removeLeadingZeroes :: "string \<Rightarrow> string" where
  "removeLeadingZeroes s = dropWhile (\<lambda>c. c = CHR ''0'') s"

text \<open>
  The position an index argument \<open>k\<close> of \<open>slice\<close> denotes in a string of length \<open>n\<close>:
  a negative index counts from the end, and the result is clamped to the string.
\<close>

definition sliceIndex :: "int \<Rightarrow> nat \<Rightarrow> nat" where
  "sliceIndex k n = (if k < 0 then nat (max (int n + k) 0) else min (nat k) n)"

text \<open>
  \<open>scientificToRegular\<close>. After the check \<open>Number.isFinite(e)\<close> the exponent is a finite
  number; \<open>e -= ...\<close> and \<open>-mantissa.length - e\<close> are subtractions of numbers, and
  \<open>repeat\<close> and \<open>slice\<close> truncate their argument to an integer. The limit an engine puts
  on the length of a string is not modelled.
\<close>

definition scientificToRegular :: "string \<Rightarrow> jserror + string" where
  "scientificToRegular scientific =
     (let parts = splitOn CHR ''e'' (toLowerCase scientific);
          mantissa0 = hd parts;
          exponent = (case tl parts of [] \<Rightarrow> ''0'' | x # _ \<Rightarrow> x);
          e0 = Number_str exponent;
          signed = (mantissa0 \<noteq> [] \<and> (hd mantissa0 = CHR ''-'' \<or> hd mantissa0 = CHR ''+''));
          sign = (if signed \<and> hd mantissa0 = CHR ''-'' then ''-'' else []);
          mantissa1 = (if signed then tl mantissa0 else mantissa0)
      in if \<not> isFinite e0 then Inl SyntaxError
         else
           let decimalPointIndex = indexOf CHR ''.'' mantissa1;
               e1 = (case decimalPointIndex of
                       None \<Rightarrow> e0
                     | Some i \<Rightarrow> fsub e0 (Fin (of_nat (length mantissa1 - i - 1))));
               mantissa = (case decimalPointIndex of
                             None \<Rightarrow> mantissa1
                           | Some i \<Rightarrow>
                               removeLeadingZeroes (take i mantissa1 @ drop (i + 1) mantissa1))
           in (case e1 of
                 Fin e \<Rightarrow>
                   if 0 \<le> e then Inr (sign @ mantissa @ replicate (nat (trunc e)) CHR ''0'')
                   else if - of_nat (length mantissa) < e then
                     Inr (sign @ take (sliceIndex (trunc e) (length mantissa)) mantissa @ ''.''
                            @ drop (sliceIndex (trunc e) (length mantissa)) mantissa)
                   else
                     (case fsub (Fin (- of_nat (length mantissa))) e1 of
                        Fin c \<Rightarrow> Inr (sign @ ''0.'' @ replicate (nat (trunc c)) CHR ''0'' @ mantissa)
                      | _ \<Rightarrow> Inl RangeError)
               | _ \<Rightarrow> Inl RangeError))"

definition amountToString :: "jsenv \<Rightarrow> int \<Rightarrow> jsnum \<Rightarrow> num_or_big \<Rightarrow> jserror + string" where
  "amountToString env val amountDivisor decimalPlaces =
     (if \<not> fge amountDivisor (Fin 0) then Inl AssertionError
      else
        let amountDivisor' = Math_max amountDivisor MIN_AMOUNT_DIVISOR;
            decimalPlaces' = (case decimalPlaces of NumV x \<Rightarrow> x | BigV b \<Rightarrow> Number_of_bigint b);
            v = fdiv (Number_of_bigint val) amountDivisor';
            n = Math_min (Math_ceil decimalPlaces') (Fin 20)
        in bindE
             (if fge n (Fin 0) then toFixed env v n
              else
                let numDigits = Math_ceil (Math_log10 env (Math_abs v));
                    precision = Math_min (fadd numDigits n) (Fin 100)
                in if fge precision (Fin 1) then toPrecision env v precision else Inr ''0'')
             scientificToRegular)"

section \<open>Canonical objects: \<open>canonical-objects.ts\<close>\<close>

text \<open>
  A property read \<open>v.k\<close>: a \<open>TypeError\<close> on \<open>undefined\<close> and \<open>null\<close>, the own property
  of an object, \<open>undefined\<close> when it is absent. The mapper reads no property that a
  string, a number or an array carries (\<open>length\<close>, an index), so on those the read is
  \<open>undefined\<close>.
\<close>

fun getp :: "jsval \<Rightarrow> string \<Rightarrow> jserror + jsval" where
  "getp JUndefined k = Inl TypeError"
| "getp JNull k = Inl TypeError"
| "getp (JObj kvs) k = Inr (case map_of kvs k of None \<Rightarrow> JUndefined | Some v \<Rightarrow> v)"
| "getp v k = Inr JUndefined"

text \<open>The optional read \<open>v?.k\<close>, the default \<open>v ?? d\<close> and the truthiness of a value.\<close>

fun getp_opt :: "jsval \<Rightarrow> string \<Rightarrow> jsval" where
  "getp_opt (JObj kvs) k = (case map_of kvs k of None \<Rightarrow> JUndefined | Some v \<Rightarrow> v)"
| "getp_opt v k = JUndefined"

fun nullish :: "jsval \<Rightarrow> jsval \<Rightarrow> jsval" where
  "nullish JUndefined d = d"
| "nullish JNull d = d"
| "nullish v d = v"

fun truthy :: "jsval \<Rightarrow> bool" where
  "truthy JUndefined = False"
| "truthy JNull = False"
| "truthy (JBool b) = b"
| "truthy (JNum x) = (x \<noteq> NaN \<and> x \<noteq> Fin 0)"
| "truthy (JBig i) = (i \<noteq> 0)"
| "truthy (JStr s) = (s \<noteq> [])"
| "truthy (JObj kvs) = True"
| "truthy (JArr xs) = True"

text \<open>
  The own enumerable properties a spread \<open>{...v}\<close> copies: those of an object, the
  indexed characters of a string, the indexed elements of an array, none otherwise.
\<close>

fun ownProps :: "jsval \<Rightarrow> (string \<times> jsval) list" where
  "ownProps (JObj kvs) = kvs"
| "ownProps (JStr s) = map (\<lambda>i. (string_of_nat i, JStr [s ! i])) [0 ..< length s]"
| "ownProps (JArr xs) = map (\<lambda>i. (string_of_nat i, xs ! i)) [0 ..< length xs]"
| "ownProps v = []"

text \<open>
  An object literal \<open>{...v, k1: v1, k2: v2}\<close>: the copied properties, then each listed
  property set in order (replaced in place when present, appended otherwise).
\<close>

definition objLit :: "(string \<times> jsval) list \<Rightarrow> (string \<times> jsval) list \<Rightarrow> jsval" where
  "objLit base kvs = JObj (fold (\<lambda>(k, v). AList.update k v) kvs base)"


text \<open>
  A type matcher is a regular expression \<open>/^Name$/\<close>; \<open>test\<close> converts its argument
  to a string and succeeds on exactly the string \<open>Name\<close>.
\<close>

definition matchType :: "jsenv \<Rightarrow> string \<Rightarrow> jsval \<Rightarrow> jserror + unit" where
  "matchType env name objType =
     (if ToString (numToString env) objType = name then Inr () else Inl WrongObjectType)"

text \<open>\<open>new URL(v, baseUri).href\<close> for a value \<open>v\<close>, and the object \<open>{ uri: ... }\<close>.\<close>

definition absUri :: "jsenv \<Rightarrow> jsval \<Rightarrow> string \<Rightarrow> jserror + jsval" where
  "absUri env v baseUri =
     bindE (newURL env (ToString (numToString env) v) baseUri) (\<lambda>href. Inr (JStr href))"

definition uriRef :: "jsval \<Rightarrow> jsval" where
  "uriRef href = JObj [(''uri'', href)]"

text \<open>
  A response of the server: the parsed body, the URL it came from, and the method
  \<open>buildUri\<close> of the transport layer, which may throw.
\<close>

record HttpResponse =
  resp_data :: jsval
  resp_url :: string
  resp_buildUri :: "jsval \<Rightarrow> jserror + string"

definition buildRef :: "HttpResponse \<Rightarrow> jsval \<Rightarrow> jserror + jsval" where
  "buildRef response v = bindE (resp_buildUri response v) (\<lambda>href. Inr (uriRef (JStr href)))"

text \<open>\<open>{ uri: new URL(data.account.uri, baseUri).href }\<close>\<close>

definition accountRef :: "jsenv \<Rightarrow> jsval \<Rightarrow> string \<Rightarrow> jserror + jsval" where
  "accountRef env d baseUri =
     bindE (getp d ''account'') (\<lambda>a.
     bindE (getp a ''uri'') (\<lambda>u.
     bindE (absUri env u baseUri) (\<lambda>href. Inr (uriRef href))))"

definition makeCreditor :: "jsenv \<Rightarrow> HttpResponse \<Rightarrow> jserror + jsval" where
  "makeCreditor env response =
     (let d = resp_data response in
      bindE (getp d ''type'') (\<lambda>t.
      bindE (matchType env ''Creditor'' (nullish t (JStr ''Creditor''))) (\<lambda>_.
      bindE (getp d ''wallet'') (\<lambda>w.
      bindE (getp w ''uri'') (\<lambda>wu.
      bindE (buildRef response wu) (\<lambda>wallet.
      Inr (objLit (ownProps d) [(''type'', JStr ''Creditor''), (''wallet'', wallet)])))))))"

definition makePinInfo :: "jsenv \<Rightarrow> HttpResponse \<Rightarrow> jserror + jsval" where
  "makePinInfo env response =
     (let d = resp_data response in
      bindE (getp d ''type'') (\<lambda>t.
      bindE (matchType env ''PinInfo'' (nullish t (JStr ''PinInfo''))) (\<lambda>_.
      bindE (getp d ''wallet'') (\<lambda>w.
      bindE (getp w ''uri'') (\<lambda>wu.
      bindE (buildRef response wu) (\<lambda>wallet.
      Inr (objLit (ownProps d) [(''type'', JStr ''PinInfo''), (''wallet'', wallet)])))))))"

definition makeAccountDisplay :: "jsenv \<Rightarrow> jsval \<Rightarrow> string \<Rightarrow> jserror + jsval" where
  "makeAccountDisplay env d baseUri =
     bindE (getp d ''type'') (\<lambda>t.
     bindE (matchType env ''AccountDisplay'' (nullish t (JStr ''AccountDisplay''))) (\<lambda>_.
     bindE (getp d ''uri'') (\<lambda>u.
     bindE (absUri env u baseUri) (\<lambda>uri.
     bindE (accountRef env d baseUri) (\<lambda>account.
     bindE (getp d ''amountDivisor'') (\<lambda>ad.
     Inr (objLit (ownProps d)
            [(''type'', JStr ''AccountDisplay''), (''uri'', uri), (''account'', account),
             (''amountDivisor'', JNum (Number_val (numToString env) ad))])))))))"

definition makeAccountConfig :: "jsenv \<Rightarrow> jsval \<Rightarrow> string \<Rightarrow> jserror + jsval" where
  "makeAccountConfig env d baseUri =
     bindE (getp d ''type'') (\<lambda>t.
     bindE (matchType env ''AccountConfig'' (nullish t (JStr ''AccountConfig''))) (\<lambda>_.
     bindE (getp d ''uri'') (\<lambda>u.
     bindE (absUri env u baseUri) (\<lambda>uri.
     bindE (accountRef env d baseUri) (\<lambda>account.
     bindE (getp d ''negligibleAmount'') (\<lambda>na.
     Inr (objLit (ownProps d)
            [(''type'', JStr ''AccountConfig''), (''uri'', uri), (''account'', account),
             (''negligibleAmount'', JNum (Number_val (numToString env) na))])))))))"

text \<open>The \<open>peg\<close> of the result of \<open>makeAccountExchange\<close>.\<close>

definition makePeg :: "jsenv \<Rightarrow> jsval \<Rightarrow> string \<Rightarrow> jserror + jsval" where
  "makePeg env peg baseUri =
     (if truthy peg then
        bindE (accountRef env peg baseUri) (\<lambda>account.
        bindE (getp peg ''exchangeRate'') (\<lambda>er.
        Inr (objLit (ownProps peg)
               [(''type'', JStr ''CurrencyPeg''), (''account'', account),
                (''exchangeRate'', JNum (Number_val (numToString env) er))])))
      else Inr JUndefined)"

definition makeAccountExchange :: "jsenv \<Rightarrow> jsval \<Rightarrow> string \<Rightarrow> jserror + jsval" where
  "makeAccountExchange env d baseUri =
     bindE (getp d ''type'') (\<lambda>t.
     bindE (matchType env ''AccountExchange'' (nullish t (JStr ''AccountExchange''))) (\<lambda>_.
     bindE (getp d ''peg'') (\<lambda>peg.
     bindE (matchType env ''CurrencyPeg''
              (nullish (getp_opt peg ''type'') (JStr ''CurrencyPeg''))) (\<lambda>_.
     bindE (getp d ''uri'') (\<lambda>u.
     bindE (absUri env u baseUri) (\<lambda>uri.
     bindE (accountRef env d baseUri) (\<lambda>account.
     bindE (makePeg env peg baseUri) (\<lambda>peg'.
     Inr (objLit (ownProps d)
            [(''type'', JStr ''AccountExchange''), (''uri'', uri), (''account'', account),
             (''peg'', peg')])))))))))"

definition makeAccountKnowledge :: "jsenv \<Rightarrow> jsval \<Rightarrow> string \<Rightarrow> jserror + jsval" where
  "makeAccountKnowledge env d baseUri =
     bindE (getp d ''type'') (\<lambda>t.
     bindE (matchType env ''AccountKnowledge'' (nullish t (JStr ''AccountKnowledge''))) (\<lambda>_.
     bindE (getp d ''uri'') (\<lambda>u.
     bindE (absUri env u baseUri) (\<lambda>uri.
     bindE (accountRef env d baseUri) (\<lambda>account.
     bindE (getp d ''interestRate'') (\<lambda>ir.
     Inr (objLit (ownProps d)
            [(''type'', JStr ''AccountKnowledge''), (''uri'', uri), (''account'', account),
             (''interestRate'',
              if ir \<noteq> JUndefined then JNum (Number_val (numToString env) ir)
              else JUndefined)])))))))"

definition makeAccountInfo :: "jsenv \<Rightarrow> jsval \<Rightarrow> string \<Rightarrow> jserror + jsval" where
  "makeAccountInfo env d baseUri =
     bindE (getp d ''type'') (\<lambda>t.
     bindE (matchType env ''AccountInfo'' t) (\<lambda>_.
     bindE (getp d ''debtorInfo'') (\<lambda>di.
     bindE (matchType env ''DebtorInfo''
              (nullish (getp_opt di ''type'') (JStr ''DebtorInfo''))) (\<lambda>_.
     bindE (getp d ''uri'') (\<lambda>u.
     bindE (absUri env u baseUri) (\<lambda>uri.
     bindE (accountRef env d baseUri) (\<lambda>account.
     bindE (getp d ''interestRate'') (\<lambda>ir.
     Inr (objLit (ownProps d)
            [(''type'', JStr ''AccountInfo''), (''uri'', uri), (''account'', account),
             (''interestRate'', JNum (Number_val (numToString env) ir)),
             (''debtorInfo'',
              if truthy di then objLit (ownProps di) [(''type'', JStr ''DebtorInfo'')]
              else JUndefined)])))))))))"

definition makeAccountLedger :: "jsenv \<Rightarrow> jsval \<Rightarrow> string \<Rightarrow> jserror + jsval" where
  "makeAccountLedger env d baseUri =
     bindE (getp d ''type'') (\<lambda>t.
     bindE (matchType env ''AccountLedger'' t) (\<lambda>_.
     bindE (getp d ''entries'') (\<lambda>entries.
     bindE (getp entries ''type'') (\<lambda>et.
     bindE (matchType env ''PaginatedList'' et) (\<lambda>_.
     bindE (getp entries ''itemsType'') (\<lambda>eit.
     bindE (matchType env ''LedgerEntry'' eit) (\<lambda>_.
     bindE (getp entries ''first'') (\<lambda>ef.
     bindE (absUri env ef baseUri) (\<lambda>first.
     bindE (getp d ''uri'') (\<lambda>u.
     bindE (absUri env u baseUri) (\<lambda>uri.
     bindE (accountRef env d baseUri) (\<lambda>account.
     Inr (objLit (ownProps d)
            [(''type'', JStr ''AccountLedger''),
             (''entries'', objLit (ownProps entries)
                [(''type'', JStr ''PaginatedList''), (''itemsType'', JStr ''LedgerEntry''),
                 (''first'', first)]),
             (''uri'', uri), (''account'', account)])))))))))))))"

definition makeAccount :: "jsenv \<Rightarrow> HttpResponse \<Rightarrow> jserror + jsval" where
  "makeAccount env response =
     (let d = resp_data response; url = resp_url response in
      bindE (getp d ''type'') (\<lambda>t.
      bindE (matchType env ''Account'' t) (\<lambda>_.
      bindE (getp d ''config'') (\<lambda>c.
      bindE (makeAccountConfig env c url) (\<lambda>config.
      bindE (getp d ''exchange'') (\<lambda>e.
      bindE (makeAccountExchange env e url) (\<lambda>exchange.
      bindE (getp d ''knowledge'') (\<lambda>k.
      bindE (makeAccountKnowledge env k url) (\<lambda>knowledge.
      bindE (getp d ''display'') (\<lambda>di.
      bindE (makeAccountDisplay env di url) (\<lambda>display.
      bindE (getp d ''info'') (\<lambda>i.
      bindE (makeAccountInfo env i url) (\<lambda>info.
      bindE (getp d ''ledger'') (\<lambda>l.
      bindE (makeAccountLedger env l url) (\<lambda>ledger.
      bindE (getp d ''accountsList'') (\<lambda>al.
      bindE (getp al ''uri'') (\<lambda>alu.
      bindE (buildRef response alu) (\<lambda>accountsList.
      Inr (objLit (ownProps d)
             [(''type'', JStr ''Account''), (''config'', config), (''exchange'', exchange),
              (''knowledge'', knowledge), (''display'', display), (''info'', info),
              (''ledger'', ledger), (''accountsList'', accountsList)])))))))))))))))))))"

definition makeTransfer :: "jsenv \<Rightarrow> HttpResponse \<Rightarrow> jserror + jsval" where
  "makeTransfer env response =
     (let d = resp_data response in
      bindE (getp d ''type'') (\<lambda>t.
      bindE (matchType env ''Transfer'' t) (\<lambda>_.
      bindE (getp d ''options'') (\<lambda>options.
      bindE (getp options ''type'') (\<lambda>ot.
      bindE (matchType env ''TransferOptions'' (nullish ot (JStr ''TransferOptions''))) (\<lambda>_.
      bindE (getp d ''result'') (\<lambda>result.
      bindE (matchType env ''TransferResult''
               (nullish (getp_opt result ''type'') (JStr ''TransferResult''))) (\<lambda>_.
      bindE (matchType env ''TransferError''
               (nullish (getp_opt (getp_opt result ''error'') ''type'')
                  (JStr ''TransferError''))) (\<lambda>_.
      bindE (getp d ''transfersList'') (\<lambda>tl.
      bindE (getp tl ''uri'') (\<lambda>tlu.
      bindE (buildRef response tlu) (\<lambda>transfersList.
      Inr (objLit (ownProps d)
             [(''type'', JStr ''Transfer''), (''transfersList'', transfersList),
              (''options'', objLit (ownProps options) [(''type'', JStr ''TransferOptions'')]),
              (''result'',
               if truthy result then
                 objLit (ownProps result)
                   [(''type'', JStr ''TransferResult''),
                    (''error'',
                     if truthy (getp_opt result ''error'') then
                       objLit (ownProps (getp_opt result ''error''))
                         [(''type'', JStr ''TransferError'')]
                     else JUndefined)]
               else JUndefined)])))))))))))))"

definition makeCommittedTransfer :: "jsenv \<Rightarrow> HttpResponse \<Rightarrow> jserror + jsval" where
  "makeCommittedTransfer env response =
     (let d = resp_data response in
      bindE (getp d ''type'') (\<lambda>t.
      bindE (matchType env ''CommittedTransfer'' t) (\<lambda>_.
      bindE (getp d ''account'') (\<lambda>a.
      bindE (getp a ''uri'') (\<lambda>au.
      bindE (buildRef response au) (\<lambda>account.
      Inr (objLit (ownProps d) [(''type'', JStr ''CommittedTransfer''), (''account'', account)])))))))"

text \<open>\<open>getCanonicalType\<close>: the matchers are tried in the order of the source.\<close>

definition getCanonicalType :: "string \<Rightarrow> string option" where
  "getCanonicalType objectType =
     (if objectType = ''Account'' then Some ''Account''
      else if objectType = ''AccountDisplay'' then Some ''AccountDisplay''
      else if objectType = ''AccountKnowledge'' then Some ''AccountKnowledge''
      else if objectType = ''AccountExchange'' then Some ''AccountExchange''
      else if objectType = ''AccountLedger'' then Some ''AccountLedger''
      else if objectType = ''AccountConfig'' then Some ''AccountConfig''
      else if objectType = ''AccountInfo'' then Some ''AccountInfo''
      else if objectType = ''Creditor'' then Some ''Creditor''
      else if objectType = ''PinInfo'' then Some ''PinInfo''
      else if objectType = ''CommittedTransfer'' then Some ''CommittedTransfer''
      else if objectType = ''Transfer'' then Some ''Transfer''
      else if objectType = ''AccountsList'' then Some ''AccountsList''
      else if objectType = ''TransfersList'' then Some ''TransfersList''
      else None)"

definition makeLogObject :: "jsenv \<Rightarrow> HttpResponse \<Rightarrow> jserror + jsval" where
  "makeLogObject env response =
     (let d = resp_data response; url = resp_url response in
      bindE (getp d ''type'') (\<lambda>t.
        let c = getCanonicalType (ToString (numToString env) t) in
        if c = Some ''Account'' then makeAccount env response
        else if c = Some ''AccountDisplay'' then makeAccountDisplay env d url
        else if c = Some ''AccountConfig'' then makeAccountConfig env d url
        else if c = Some ''AccountKnowledge'' then makeAccountKnowledge env d url
        else if c = Some ''AccountExchange'' then makeAccountExchange env d url
        else if c = Some ''AccountLedger'' then makeAccountLedger env d url
        else if c = Some ''AccountInfo'' then makeAccountInfo env d url
        else if c = Some ''Creditor'' then makeCreditor env response
        else if c = Some ''PinInfo'' then makePinInfo env response
        else if c = Some ''Transfer'' then makeTransfer env response
        else if c = Some ''CommittedTransfer'' then makeCommittedTransfer env response
        else Inl WrongObjectType))"


text \<open>An environment and responses for the examples below.\<close>

definition env0 :: jsenv where
  "env0 = \<lparr> numToString = (\<lambda>x. ''0''), Math_log10 = (\<lambda>x. x),
            toPrecision = (\<lambda>x p. Inr ''0''),
            newURL = (\<lambda>rel base. Inr (base @ rel)) \<rparr>"

definition mkResp :: "jsval \<Rightarrow> HttpResponse" where
  "mkResp d = \<lparr> resp_data = d, resp_url = ''https://h/'',
               resp_buildUri = (\<lambda>v. Inr (''https://h/'' @ ToString (\<lambda>x. ''0'') v)) \<rparr>"


definition accountsListObj :: jsval where
  "accountsListObj = JObj [(''type'', JStr ''AccountsList'')]"



section \<open>Parallel requests: \<open>operations/utils.ts\<close>\<close>

text \<open>
  \<open>calcParallelTimeout\<close>. \<open>appConfig.serverApiTimeout\<close> is a configured number, the
  parameter \<open>serverApiTimeout\<close>; \<open>numberOfParallelRequests\<close> is the length of an array.
  The expression is \<open>serverApiTimeout * (numberOfParallelRequests + n - 1) / n\<close> with
  \<open>n = 6\<close>, in the arithmetic of numbers: \<open>/\<close> is a division of numbers, not an
  integer division.
\<close>

definition calcParallelTimeout :: "jsnum \<Rightarrow> nat \<Rightarrow> jsnum" where
  "calcParallelTimeout serverApiTimeout numberOfParallelRequests =
     (let n = Fin 6 in
      fdiv (fmul serverApiTimeout
              (fsub (fadd (Fin (of_nat numberOfParallelRequests)) n) (Fin 1))) n)"

text \<open>
  The outcome of a settled promise, as \<open>Promise.allSettled\<close> reports it, in the order
  of the promises.
\<close>

datatype 'a settled = Fulfilled 'a | Rejected jserror

fun isRejected :: "'a settled \<Rightarrow> bool" where
  "isRejected (Rejected e) = True"
| "isRejected (Fulfilled v) = False"

fun reason :: "'a settled \<Rightarrow> jserror" where
  "reason (Rejected e) = e"
| "reason (Fulfilled v) = OtherError []"

text \<open>The values of the fulfilled outcomes, in order.\<close>

fun fulfilledValues :: "'a settled list \<Rightarrow> 'a list" where
  "fulfilledValues [] = []"
| "fulfilledValues (Fulfilled v # rs) = v # fulfilledValues rs"
| "fulfilledValues (Rejected e # rs) = fulfilledValues rs"

text \<open>
  The loop \<open>for (const e of errors)\<close>: an \<open>HttpError\<close> with status 404 is passed over,
  the first other reason is thrown.
\<close>

fun throwUnless404 :: "jserror list \<Rightarrow> jserror + unit" where
  "throwUnless404 [] = Inr ()"
| "throwUnless404 (e # es) = (if e = HttpError 404 then throwUnless404 es else Inl e)"

definition settleAndIgnore404 :: "'a settled list \<Rightarrow> jserror + 'a list" where
  "settleAndIgnore404 results =
     (let rejected = filter isRejected results;
          errors = map reason rejected
      in bindE (throwUnless404 errors) (\<lambda>_. Inr (fulfilledValues results)))"

section \<open>Bootstrap of the transfers: \<open>ensureLoadedTransfers\<close>\<close>

text \<open>
  The server session answers a \<open>get\<close> of a URI, with an optional timeout, by a response
  or by a thrown error; it is a function of the request. The local database is a state
  \<open>'db\<close> with its operations as parameters: they belong to the storage module.
\<close>

record ServerSession =
  srv_get :: "string \<Rightarrow> jsnum option \<Rightarrow> jserror + HttpResponse"

text \<open>
  The wallet record, with the fields \<open>ensureLoadedTransfers\<close> uses: \<open>uri\<close>,
  \<open>transfersList.uri\<close> and \<open>logStream.loadedTransfers\<close>.
\<close>

record WalletRecord =
  wr_uri :: string
  wr_transfersList_uri :: string
  wr_loadedTransfers :: bool

record 'db dbops =
  db_getWalletRecord :: "'db \<Rightarrow> nat \<Rightarrow> jserror + WalletRecord"
  db_getTransferRecord :: "'db \<Rightarrow> string \<Rightarrow> jserror + jsval"
  db_storeTransfer :: "'db \<Rightarrow> nat \<Rightarrow> jsval \<Rightarrow> jserror + 'db"
  db_updateWalletRecord :: "'db \<Rightarrow> WalletRecord \<Rightarrow> jserror + 'db"

text \<open>\<open>assert(c)\<close>\<close>

definition assertE :: "bool \<Rightarrow> jserror + unit" where
  "assertE c = (if c then Inr () else Inl AssertionError)"

text \<open>\<open>matcher.test(v)\<close> for the matcher \<open>/^name$/\<close>.\<close>

definition testType :: "jsenv \<Rightarrow> string \<Rightarrow> jsval \<Rightarrow> bool" where
  "testType env name v = (ToString (numToString env) v = name)"

text \<open>\<open>responses.every(response => TRANSFER_TYPE.test(response.data.type))\<close>\<close>

fun everyTransferType :: "jsenv \<Rightarrow> HttpResponse list \<Rightarrow> jserror + bool" where
  "everyTransferType env [] = Inr True"
| "everyTransferType env (r # rs) =
     bindE (getp (resp_data r) ''type'') (\<lambda>t.
       if testType env ''Transfer'' t then everyTransferType env rs else Inr False)"

text \<open>
  The local \<open>fetchTransfers\<close> of \<open>ensureLoadedTransfers\<close>: all the requests are sent
  with the same timeout, the rejections are handled by the statements of
  \<open>settleAndIgnore404\<close>, the types are asserted, and each body is retagged.
\<close>

definition fetchTransfers ::
  "jsenv \<Rightarrow> jsnum \<Rightarrow> ServerSession \<Rightarrow> string list \<Rightarrow> jserror + jsval list" where
  "fetchTransfers env serverApiTimeout server uris =
     (let timeout = calcParallelTimeout serverApiTimeout (length uris);
          results = map (\<lambda>uri. case srv_get server uri (Some timeout) of
                                   Inl e \<Rightarrow> Rejected e
                                 | Inr r \<Rightarrow> Fulfilled r) uris
      in bindE (settleAndIgnore404 results) (\<lambda>responses.
         bindE (everyTransferType env responses) (\<lambda>ok.
         bindE (assertE ok) (\<lambda>_.
         Inr (map (\<lambda>response. objLit (ownProps (resp_data response))
                                  [(''type'', JStr ''Transfer'')]) responses)))))"

text \<open>The values \<open>for (const item of v)\<close> iterates over; only arrays and strings are iterable.\<close>

fun iterate :: "jsval \<Rightarrow> jserror + jsval list" where
  "iterate (JArr xs) = Inr xs"
| "iterate (JStr s) = Inr (map (\<lambda>c. JStr [c]) s)"
| "iterate v = Inl TypeError"

text \<open>
  \<open>iterPage\<close>: the \<open>do ... while (next)\<close> loop over the pages. Since the server is a
  function of the request, what the generator yields does not depend on what its
  consumer does between two items: the model collects the yielded \<open>{ item, pageUrl }\<close>
  pairs together with the error that ends the iteration, if one does. The chain of
  \<open>next\<close> links need not end, so the loop takes fuel, and \<open>None\<close> is fuel exhausted.
\<close>

fun iterPage ::
  "nat \<Rightarrow> ServerSession \<Rightarrow> string \<Rightarrow> ((jsval \<times> string) list \<times> jserror option) option" where
  "iterPage 0 server next = None"
| "iterPage (Suc fuel) server next =
     (case srv_get server next None of
        Inl e \<Rightarrow> Some ([], Some e)
      | Inr pageResponse \<Rightarrow>
          (case bindE (getp (resp_data pageResponse) ''items'') iterate of
             Inl e \<Rightarrow> Some ([], Some e)
           | Inr items \<Rightarrow>
               let yielded = map (\<lambda>item. (item, resp_url pageResponse)) items in
               (case bindE (getp (resp_data pageResponse) ''next'') (\<lambda>n.
                       if n \<noteq> JUndefined then resp_buildUri pageResponse n else Inr []) of
                  Inl e \<Rightarrow> Some (yielded, Some e)
                | Inr next' \<Rightarrow>
                    if next' \<noteq> [] then
                      (case iterPage fuel server next' of
                         None \<Rightarrow> None
                       | Some (later, err) \<Rightarrow> Some (yielded @ later, err))
                    else Some (yielded, None))))"

definition iterPaginatedList ::
  "nat \<Rightarrow> jsenv \<Rightarrow> ServerSession \<Rightarrow> string \<Rightarrow> string \<Rightarrow> string
    \<Rightarrow> ((jsval \<times> string) list \<times> jserror option) option" where
  "iterPaginatedList fuel env server listUri listType itemsType =
     (case bindE (srv_get server listUri None) (\<lambda>listResponse.
             bindE (getp (resp_data listResponse) ''type'') (\<lambda>t.
             bindE (assertE (testType env listType t)) (\<lambda>_.
             bindE (getp (resp_data listResponse) ''itemsType'') (\<lambda>it.
             bindE (assertE (testType env itemsType it)) (\<lambda>_.
             bindE (getp (resp_data listResponse) ''first'') (\<lambda>f.
             resp_buildUri listResponse f)))))) of
        Inl e \<Rightarrow> Some ([], Some e)
      | Inr first \<Rightarrow> iterPage fuel server first)"

text \<open>\<open>for await (const transfer of ...) await db.storeTransfer(userId, transfer)\<close>\<close>

fun storeAll :: "'db dbops \<Rightarrow> nat \<Rightarrow> jsval list \<Rightarrow> 'db \<Rightarrow> jserror + 'db" where
  "storeAll dbo userId [] db = Inr db"
| "storeAll dbo userId (t # ts) db =
     bindE (db_storeTransfer dbo db userId t) (\<lambda>db'. storeAll dbo userId ts db')"

text \<open>
  The body of \<open>iterTransfers\<close> run against its consumer, over the yielded items:
  \<open>urisToFetch\<close> is the list of the generator, every yielded transfer is stored at once,
  and the error that ended the iteration of the pages is thrown after the last item.
\<close>

fun loadLoop ::
  "jsenv \<Rightarrow> jsnum \<Rightarrow> ServerSession \<Rightarrow> 'db dbops \<Rightarrow> nat \<Rightarrow> jserror option
    \<Rightarrow> (jsval \<times> string) list \<Rightarrow> string list \<Rightarrow> 'db \<Rightarrow> jserror + 'db" where
  "loadLoop env tmo server dbo userId err [] urisToFetch db =
     (case err of
        Some e \<Rightarrow> Inl e
      | None \<Rightarrow>
          bindE (fetchTransfers env tmo server urisToFetch) (\<lambda>ts. storeAll dbo userId ts db))"
| "loadLoop env tmo server dbo userId err ((item, pageUrl) # rest) urisToFetch db =
     bindE (getp item ''uri'') (\<lambda>u.
     bindE (newURL env (ToString (numToString env) u) pageUrl) (\<lambda>transferUri.
     bindE (db_getTransferRecord dbo db transferUri) (\<lambda>transferRecord.
       let isConcludedTransfer =
             (truthy transferRecord \<and>
              (truthy (getp_opt transferRecord ''result'') \<or>
               truthy (getp_opt transferRecord ''aborted'')))
       in
       bindE (if \<not> isConcludedTransfer then Inr (urisToFetch @ [transferUri], db)
              else if \<not> truthy (getp_opt transferRecord ''aborted'') \<and>
                      getp_opt (getp_opt transferRecord ''result'') ''committedAmount'' = JBig 0
              then bindE (db_storeTransfer dbo db userId transferRecord)
                     (\<lambda>db'. Inr (urisToFetch, db'))
              else Inr (urisToFetch, db)) (\<lambda>(urisToFetch', db').
         if length urisToFetch' \<ge> 10 then
           bindE (fetchTransfers env tmo server urisToFetch') (\<lambda>ts.
           bindE (storeAll dbo userId ts db') (\<lambda>db''.
           loadLoop env tmo server dbo userId err rest [] db''))
         else loadLoop env tmo server dbo userId err rest urisToFetch' db'))))"

text \<open>
  \<open>ensureLoadedTransfers\<close>. The result is \<open>None\<close> when the fuel does not cover the pages
  of the list, otherwise the thrown error or the database with the wallet record that is
  returned.
\<close>

definition ensureLoadedTransfers ::
  "nat \<Rightarrow> jsenv \<Rightarrow> jsnum \<Rightarrow> ServerSession \<Rightarrow> 'db dbops \<Rightarrow> nat \<Rightarrow> 'db
    \<Rightarrow> (jserror + 'db \<times> WalletRecord) option" where
  "ensureLoadedTransfers fuel env tmo server dbo userId db =
     (case db_getWalletRecord dbo db userId of
        Inl e \<Rightarrow> Some (Inl e)
      | Inr walletRecord \<Rightarrow>
          (case newURL env (wr_transfersList_uri walletRecord) (wr_uri walletRecord) of
             Inl e \<Rightarrow> Some (Inl e)
           | Inr transfersListUri \<Rightarrow>
               if \<not> wr_loadedTransfers walletRecord then
                 (case iterPaginatedList fuel env server transfersListUri
                         ''TransfersList'' ''ObjectReference'' of
                    None \<Rightarrow> None
                  | Some (items, err) \<Rightarrow>
                      Some (bindE (loadLoop env tmo server dbo userId err items [] db) (\<lambda>db'.
                            let walletRecord' = walletRecord \<lparr> wr_loadedTransfers := True \<rparr> in
                            bindE (db_updateWalletRecord dbo db' walletRecord') (\<lambda>db''.
                            Inr (db'', walletRecord')))))
               else Some (Inr (db, walletRecord))))"




text \<open>
  A server and a database for the examples: the transfers list has one page with the
  references \<open>t1\<close> and \<open>t2\<close>; the transfer \<open>t1\<close> is gone (404), any other transfer is
  served. The database is the list of the transfers stored so far.
\<close>

definition srv1 :: ServerSession where
  "srv1 = \<lparr> srv_get = (\<lambda>uri timeout.
      case timeout of
        None \<Rightarrow>
          if uri = ''https://h/list'' then
            Inr (mkResp (JObj [(''type'', JStr ''TransfersList''),
                               (''itemsType'', JStr ''ObjectReference''),
                               (''first'', JStr ''p1'')]))
          else if uri = ''https://h/p1'' then
            Inr (mkResp (JObj [(''items'', JArr [JObj [(''uri'', JStr ''t1'')],
                                                JObj [(''uri'', JStr ''t2'')]])]))
          else Inl (HttpError 404)
      | Some t \<Rightarrow>
          if uri = ''https://h/t1'' then Inl (HttpError 404)
          else Inr (mkResp (JObj [(''type'', JStr ''Transfer''), (''uri'', JStr uri),
                                  (''amount'', JBig 5)]))) \<rparr>"

definition wallet1 :: WalletRecord where
  "wallet1 = \<lparr> wr_uri = ''https://h/'', wr_transfersList_uri = ''list'',
               wr_loadedTransfers = False \<rparr>"

definition dbo1 :: "(jsval list) dbops" where
  "dbo1 = \<lparr> db_getWalletRecord = (\<lambda>d u. Inr wallet1),
             db_getTransferRecord = (\<lambda>d u. Inr JUndefined),
             db_storeTransfer = (\<lambda>d u t. Inr (d @ [t])),
             db_updateWalletRecord = (\<lambda>d w. Inr d) \<rparr>"

section \<open>Application state: \<open>createCreateAccountAction\<close>\<close>

text \<open>
  What a method of \<open>AppState\<close> does is recorded as the list of its calls on its
  collaborators: the navigation (\<open>showAccount\<close>, \<open>showAction\<close>), the alerts, and the
  one call that creates an action record,
  \<open>uc.createCreateAccountAction(latestDebtorInfoUri, debtorIdentityUri)\<close>.
\<close>

datatype uiEvent =
    ShowAccount string
  | CallCreateCreateAccountAction string string
  | ShowAction nat
  | AddAlert string

definition INVALID_SCANNED_COIN_MESSAGE :: string where
  "INVALID_SCANNED_COIN_MESSAGE =
     ''Invalid digital coin. Make sure that you are scanning the correct QR code, for the correct digital coin.''"

definition UNEXPECTED_ERROR_MESSAGE :: string where
  "UNEXPECTED_ERROR_MESSAGE = ''Oops, something went wrong.''"

record AccountDisplayData =
  knownDebtor :: bool

record AccountFullData =
  display :: AccountDisplayData

text \<open>
  The collaborators: \<open>parseCoinUri\<close>, which throws \<open>InvalidCoinUri\<close> on a malformed coin
  and otherwise returns \<open>[latestDebtorInfoUri, debtorIdentityUri]\<close>; the two lookups of
  the accounts index; and the method of the user context that creates the action
  record and returns its id.
\<close>

record appCtx =
  parseCoinUri :: "string \<Rightarrow> jserror + string \<times> string"
  getAccountUri :: "string \<Rightarrow> string option"
  getAccountFullData :: "string \<Rightarrow> AccountFullData option"
  uc_createCreateAccountAction :: "string \<Rightarrow> string \<Rightarrow> jserror + nat"

text \<open>
  \<open>attempt(func, { alerts })\<close> with the default \<open>startInteraction\<close>: the interaction id
  is incremented, \<open>func\<close> runs, an error with an alert in \<open>alerts\<close> is turned into that
  alert, any other error adds the alert for the unexpected and is thrown again. The
  timer of the waiting indicator is not modelled. The result is the new interaction
  id, the calls made, and the outcome.
\<close>

definition attempt ::
  "nat \<Rightarrow> (nat \<Rightarrow> uiEvent list \<times> (jserror + unit)) \<Rightarrow> (jserror \<Rightarrow> string option)
    \<Rightarrow> nat \<times> uiEvent list \<times> (jserror + unit)" where
  "attempt interactionId func alerts =
     (let interactionId' = interactionId + 1;
          (events, r) = func interactionId'
      in case r of
           Inr u \<Rightarrow> (interactionId', events, Inr ())
         | Inl e \<Rightarrow>
             (case alerts e of
                None \<Rightarrow> (interactionId', events @ [AddAlert UNEXPECTED_ERROR_MESSAGE], Inl e)
              | Some alert \<Rightarrow> (interactionId', events @ [AddAlert alert], Inr ())))"

text \<open>
  \<open>createCreateAccountAction\<close>. \<open>resumedInteractionId\<close> is the value of
  \<open>this.interactionId\<close> when the \<open>await\<close> of the user context's call resumes: another
  interaction may have started in between.
\<close>

definition createCreateAccountAction ::
  "appCtx \<Rightarrow> nat \<Rightarrow> nat \<Rightarrow> string \<Rightarrow> nat \<times> uiEvent list \<times> (jserror + unit)" where
  "createCreateAccountAction ctx thisInteractionId resumedInteractionId coinUri =
     attempt thisInteractionId
       (\<lambda>interactionId.
          case parseCoinUri ctx coinUri of
            Inl e \<Rightarrow> ([], Inl e)
          | Inr (latestDebtorInfoUri, debtorIdentityUri) \<Rightarrow>
              (case (case getAccountUri ctx debtorIdentityUri of
                       None \<Rightarrow> None
                     | Some existingAccountUri \<Rightarrow>
                         (case getAccountFullData ctx existingAccountUri of
                            None \<Rightarrow> None
                          | Some d \<Rightarrow>
                              if knownDebtor (display d) then Some existingAccountUri
                              else None)) of
                 Some existingAccountUri \<Rightarrow> ([ShowAccount existingAccountUri], Inr ())
               | None \<Rightarrow>
                   (case uc_createCreateAccountAction ctx latestDebtorInfoUri debtorIdentityUri of
                      Inl e \<Rightarrow>
                        ([CallCreateCreateAccountAction latestDebtorInfoUri debtorIdentityUri],
                         Inl e)
                    | Inr actionId \<Rightarrow>
                        (CallCreateCreateAccountAction latestDebtorInfoUri debtorIdentityUri
                           # (if resumedInteractionId = interactionId then [ShowAction actionId]
                              else []),
                         Inr ()))))
       (\<lambda>e. if e = InvalidCoinUri then Some INVALID_SCANNED_COIN_MESSAGE else None)"

text \<open>Whether a call in the list creates an action record.\<close>

fun isCreateCall :: "uiEvent \<Rightarrow> bool" where
  "isCreateCall (CallCreateCreateAccountAction l d) = True"
| "isCreateCall e = False"

text \<open>An accounts index for the examples: the debtor \<open>d1\<close> is known, \<open>d2\<close> is not.\<close>

definition ctx1 :: appCtx where
  "ctx1 = \<lparr> parseCoinUri = (\<lambda>c. if c = [] then Inl InvalidCoinUri else Inr (''info:'' @ c, c)),
             getAccountUri = (\<lambda>d. if d = ''d1'' then Some ''acc1'' else None),
             getAccountFullData =
               (\<lambda>u. if u = ''acc1'' then Some \<lparr> display = \<lparr> knownDebtor = True \<rparr> \<rparr>
                     else None),
             uc_createCreateAccountAction = (\<lambda>l d. Inr 7) \<rparr>"

section \<open>User context: \<open>resetPin\<close>\<close>














section \<open>Task queue: \<open>executeReadyTasks\<close>\<close>
















section \<open>Log stream: \<open>collectObjectUpdates\<close>\<close>

text \<open>
  A log entry, with the fields \<open>collectObjectUpdates\<close> destructures. \<open>object_uri\<close> is
  \<open>object.uri\<close>; \<open>objectUpdateId\<close>, \<open>deleted\<close> and \<open>data\<close> are optional in the wire
  format, \<open>None\<close> is \<open>undefined\<close>.
\<close>

record 'd LogEntryV0 =
  entryId :: int
  object_uri :: string
  objectType :: string
  objectUpdateId :: "int option"
  deleted :: "bool option"
  data :: "'d option"

text \<open>\<open>updateId?: bigint | 'deleted'\<close>\<close>

datatype updateIdT = UpdateId int | Deleted

record 'd ObjectUpdateInfo =
  ou_objectType :: string
  ou_updateId :: "updateIdT option"
  ou_data :: "'d option"
  ou_recreated :: bool

text \<open>Truthiness of an optional boolean: \<open>undefined\<close> and \<open>false\<close> are falsy.\<close>

fun truthy_bool :: "bool option \<Rightarrow> bool" where
  "truthy_bool None = False"
| "truthy_bool (Some b) = b"

text \<open>
  The \<open>Map<string, ObjectUpdateInfo>\<close> is an association list in insertion order;
  \<open>Map.set\<close> on a key already present replaces the value in place and otherwise appends,
  which is \<open>AList.update\<close>; \<open>Map.get\<close> is \<open>map_of\<close>.

  The loop body: \<open>++latestEntryId\<close> increments first, the comparison uses the incremented
  value, and the throw leaves the function before anything is returned.
\<close>

fun collectLoop ::
  "int \<Rightarrow> (string \<times> 'd ObjectUpdateInfo) list \<Rightarrow> 'd LogEntryV0 list
    \<Rightarrow> jserror + (int \<times> (string \<times> 'd ObjectUpdateInfo) list)" where
  "collectLoop latestEntryId updates [] = Inr (latestEntryId, updates)"
| "collectLoop latestEntryId updates (e # es) =
     (let latestEntryId' = latestEntryId + 1 in
      if entryId e \<noteq> latestEntryId' then Inl BrokenLogStream
      else
        let existingUpdate = map_of updates (object_uri e);
            recreated =
              ((case existingUpdate of
                  None \<Rightarrow> False
                | Some u \<Rightarrow> ou_updateId u = Some Deleted) \<and> \<not> truthy_bool (deleted e));
            info = \<lparr> ou_objectType = objectType e,
                     ou_updateId = (if truthy_bool (deleted e) then Some Deleted
                                    else map_option UpdateId (objectUpdateId e)),
                     ou_data = data e,
                     ou_recreated =
                       ((case existingUpdate of None \<Rightarrow> False | Some u \<Rightarrow> ou_recreated u)
                        \<or> recreated) \<rparr>
        in collectLoop latestEntryId' (AList.update (object_uri e) info updates) es)"

definition collectObjectUpdates ::
  "int \<Rightarrow> 'd LogEntryV0 list \<Rightarrow> jserror + (int \<times> (string \<times> 'd ObjectUpdateInfo) list)" where
  "collectObjectUpdates latestEntryId logEntries = collectLoop latestEntryId [] logEntries"

text \<open>
  The specification's wording of a gap-free batch, to compare with the code: the first
  entry id is one plus the last applied id, each following id is one plus its predecessor.
\<close>

fun gap_free :: "int \<Rightarrow> int list \<Rightarrow> bool" where
  "gap_free prev [] = True"
| "gap_free prev (i # is) = (i = prev + 1 \<and> gap_free i is)"

text \<open>A log entry for the examples below.\<close>

definition mkEntry :: "int \<Rightarrow> string \<Rightarrow> bool option \<Rightarrow> unit LogEntryV0" where
  "mkEntry i u d = \<lparr> entryId = i, object_uri = u, objectType = ''Transfer'',
                     objectUpdateId = Some 1, deleted = d, data = None \<rparr>"

section \<open>Properties of the log stream\<close>

lemma collectLoop_cases:
  "(gap_free L (map entryId es) \<and>
      (\<exists>u. collectLoop L acc es = Inr (L + int (length es), u))) \<or>
   (\<not> gap_free L (map entryId es) \<and> collectLoop L acc es = Inl BrokenLogStream)"
proof (induction es arbitrary: L acc)
  case Nil
  show ?case by simp
next
  case (Cons e es)
  show ?case
  proof (cases "entryId e = L + 1")
    case False
    then show ?thesis by simp
  next
    case True
    let ?acc' = "AList.update (object_uri e)
        \<lparr> ou_objectType = objectType e,
          ou_updateId = (if truthy_bool (deleted e) then Some Deleted
                         else map_option UpdateId (objectUpdateId e)),
          ou_data = data e,
          ou_recreated =
            ((case map_of acc (object_uri e) of None \<Rightarrow> False | Some u \<Rightarrow> ou_recreated u)
             \<or> ((case map_of acc (object_uri e) of
                    None \<Rightarrow> False
                  | Some u \<Rightarrow> ou_updateId u = Some Deleted) \<and> \<not> truthy_bool (deleted e))) \<rparr>
        acc"
    have step: "collectLoop L acc (e # es) = collectLoop (L + 1) ?acc' es"
      using True by (simp add: Let_def)
    have gf: "gap_free L (map entryId (e # es)) = gap_free (L + 1) (map entryId es)"
      using True by simp
    from Cons.IH [of "L + 1" ?acc'] show ?thesis
      unfolding step gf by (auto simp: algebra_simps)
  qed
qed

text \<open>
  C1. For every starting entry id \<open>L\<close> and every list of log entries,
  \<open>collectObjectUpdates\<close> throws \<open>BrokenLogStream\<close> if and only if the batch is not
  gap-free from \<open>L\<close> (some entry id is not one plus its predecessor, the first one plus
  \<open>L\<close>); when it throws, no map of updates is returned, and when it does not throw it
  returns the map together with the id of the last entry, \<open>L\<close> plus the batch length.
\<close>

theorem collectObjectUpdates_broken_iff:
  "(collectObjectUpdates L es = Inl BrokenLogStream \<longleftrightarrow> \<not> gap_free L (map entryId es)) \<and>
   (collectObjectUpdates L es = Inl BrokenLogStream \<longrightarrow>
      (\<forall>r. collectObjectUpdates L es \<noteq> Inr r)) \<and>
   (gap_free L (map entryId es) \<longrightarrow>
      (\<exists>u. collectObjectUpdates L es = Inr (L + int (length es), u)))"
  using collectLoop_cases [of L es "[]"] unfolding collectObjectUpdates_def by auto

theorem collectObjectUpdates_broken_iff_witness:
  "collectObjectUpdates 5 [mkEntry 6 ''a'' None, mkEntry 8 ''b'' None] = Inl BrokenLogStream \<and>
   \<not> gap_free 5 [6, 8] \<and>
   gap_free 5 [6, 7] \<and>
   (\<exists>u. collectObjectUpdates 5 [mkEntry 6 ''a'' None, mkEntry 7 ''b'' None] = Inr (7, u))"
  using collectObjectUpdates_broken_iff [of 5 "[mkEntry 6 ''a'' None, mkEntry 8 ''b'' None]"]
    collectObjectUpdates_broken_iff [of 5 "[mkEntry 6 ''a'' None, mkEntry 7 ''b'' None]"]
  by (simp add: mkEntry_def)

section \<open>Properties of the amount formatting\<close>

lemma bindE_Inr_iff: "bindE m f = Inr y \<longleftrightarrow> (\<exists>x. m = Inr x \<and> f x = Inr y)"
  by (cases m) auto

lemma clamp_eq:
  "(if a \<le> MIN_INT64 then Inr MIN_INT64
    else if a \<ge> MAX_INT64 then Inr MAX_INT64
    else (Inr a :: jserror + int)) = Inr (max (- (2 ^ 63)) (min (2 ^ 63 - 1) a))"
  by (auto simp: MIN_INT64_def MAX_INT64_def)

text \<open>The value of the literal \<open>1e-99\<close>, and the divisor the functions use for 100.\<close>

lemma MIN_AMOUNT_DIVISOR_val:
  "MIN_AMOUNT_DIVISOR =
     Fin (2462625387274655 /
          2462625387274654950767440006258975862817483704404090416746768337765357610718575663213391640930307227550414249394176)"
  by code_simp

lemma Math_max_100: "Math_max (Fin 100) MIN_AMOUNT_DIVISOR = Fin 100"
  unfolding MIN_AMOUNT_DIVISOR_val by simp

lemma stringToAmount_12_34: "stringToAmount (Str ''12.34'') (Fin 100) = Inr 1234"
  unfolding stringToAmount_def Let_def Math_max_100 by code_simp

lemma amountToString_1234: "amountToString env 1234 (Fin 100) (NumV (Fin 2)) = Inr ''12.34''"
  unfolding amountToString_def Let_def Math_max_100 by code_simp

lemma stringToAmount_1e30: "stringToAmount (Str ''1e30'') (Fin 100) = Inr 9223372036854775807"
  unfolding stringToAmount_def Let_def Math_max_100 by code_simp

text \<open>
  C2. With \<open>amountDivisor = 100\<close> and \<open>decimalPlaces = 2\<close>,
  \<open>stringToAmount("12.34", 100)\<close> is \<open>1234n\<close> and \<open>amountToString(1234n, 100, 2)\<close> is
  the string \<open>"12.34"\<close>, whatever the built-ins left as parameters do: the round trip
  returns exactly \<open>"12.34"\<close>.
\<close>

theorem amount_roundtrip_12_34:
  "stringToAmount (Str ''12.34'') (Fin 100) = Inr 1234 \<and>
   amountToString env 1234 (Fin 100) (NumV (Fin 2)) = Inr ''12.34'' \<and>
   bindE (stringToAmount (Str ''12.34'') (Fin 100))
     (\<lambda>a. amountToString env a (Fin 100) (NumV (Fin 2))) = Inr ''12.34''"
  by (simp add: stringToAmount_12_34 amountToString_1234)

text \<open>
  C10, as the code has it. Whenever \<open>stringToAmount\<close> returns a value, the value is at
  least \<open>-2^63\<close> and at most \<open>2^63 - 1\<close>. For \<open>amountDivisor >= 0\<close> it returns a value
  exactly when the product \<open>Number(s) * max(amountDivisor, 1e-99)\<close> is a finite number,
  and the value is then the rounded product clamped to those bounds; when the product is
  \<open>NaN\<close> or infinite, \<open>BigInt\<close> throws a \<open>RangeError\<close> and nothing is returned.
\<close>

theorem stringToAmount_range:
  "(\<forall>v. stringToAmount s d = Inr v \<longrightarrow> - (2 ^ 63) \<le> v \<and> v \<le> 2 ^ 63 - 1) \<and>
   (fge d (Fin 0) \<longrightarrow>
      (case fmul (Number_sn s) (Math_max d MIN_AMOUNT_DIVISOR) of
         Fin p \<Rightarrow> stringToAmount s d = Inr (max (- (2 ^ 63)) (min (2 ^ 63 - 1) \<lfloor>p + 1 / 2\<rfloor>))
       | _ \<Rightarrow> stringToAmount s d = Inl RangeError))"
proof (intro conjI allI impI)
  fix v assume "stringToAmount s d = Inr v"
  then obtain a where "Inr v = (Inr (max (- (2 ^ 63)) (min (2 ^ 63 - 1) a)) :: jserror + int)"
    unfolding stringToAmount_def Let_def clamp_eq
    by (auto simp: bindE_Inr_iff split: if_splits)
  then show "- (2 ^ 63) \<le> v" and "v \<le> 2 ^ 63 - 1" by auto
next
  assume d: "fge d (Fin 0)"
  show "case fmul (Number_sn s) (Math_max d MIN_AMOUNT_DIVISOR) of
         Fin p \<Rightarrow> stringToAmount s d = Inr (max (- (2 ^ 63)) (min (2 ^ 63 - 1) \<lfloor>p + 1 / 2\<rfloor>))
       | _ \<Rightarrow> stringToAmount s d = Inl RangeError"
    using d unfolding stringToAmount_def Let_def clamp_eq
    by (cases "fmul (Number_sn s) (Math_max d MIN_AMOUNT_DIVISOR)") auto
qed

theorem stringToAmount_range_witness:
  "fge (Fin 100) (Fin 0) \<and>
   stringToAmount (Str ''1e30'') (Fin 100) = Inr 9223372036854775807 \<and>
   - (2 ^ 63) \<le> (9223372036854775807 :: int) \<and> (9223372036854775807 :: int) \<le> 2 ^ 63 - 1"
  using stringToAmount_range [of "Str ''1e30''" "Fin 100"] stringToAmount_1e30
  by simp

text \<open>
  A value within the range for every input is not what the code gives where the product
  is infinite: \<open>stringToAmount("Infinity", 100)\<close> throws a \<open>RangeError\<close> instead of
  returning \<open>2^63 - 1\<close>.
\<close>

theorem stringToAmount_Infinity_throws:
  "stringToAmount (Str ''Infinity'') (Fin 100) = Inl RangeError"
  unfolding stringToAmount_def Let_def Math_max_100 by code_simp

section \<open>Properties of the canonical object mapper\<close>


















lemma makeLogObject_accountsList:
  "makeLogObject env0 (mkResp accountsListObj) = Inl WrongObjectType"
  by code_simp









section \<open>Properties of the timeout of parallel requests\<close>

















section \<open>Properties of the bootstrap\<close>













lemma srv1_bootstrap:
  "ensureLoadedTransfers 3 env0 (Fin 1000) srv1 dbo1 1 []
     = Some (Inr ([JObj [(''type'', JStr ''Transfer''), (''uri'', JStr ''https://h/t2''),
                         (''amount'', JBig 5)]],
                  wallet1 \<lparr> wr_loadedTransfers := True \<rparr>))"
  by code_simp



section \<open>Properties of \<open>createCreateAccountAction\<close>\<close>

text \<open>
  C7. If the coin parses and the accounts index maps its debtor-identity URI to an
  existing account URI whose full data has \<open>display.knownDebtor\<close> set, then
  \<open>createCreateAccountAction\<close> calls \<open>showAccount\<close> on that account and nothing else: no
  action record is created. Conversely, whenever the method makes the call that creates
  an action record, the coin has parsed and no such known account exists.
\<close>

theorem createCreateAccountAction_known_debtor:
  "(parseCoinUri ctx coinUri = Inr (l, d) \<and> getAccountUri ctx d = Some u \<and>
    getAccountFullData ctx u = Some fd \<and> knownDebtor (display fd) \<longrightarrow>
      createCreateAccountAction ctx i j coinUri = (i + 1, [ShowAccount u], Inr ())) \<and>
   ((\<exists>e \<in> set (fst (snd (createCreateAccountAction ctx i j coinUri))). isCreateCall e) \<longrightarrow>
      (\<exists>l d. parseCoinUri ctx coinUri = Inr (l, d) \<and>
         \<not> (\<exists>u fd. getAccountUri ctx d = Some u \<and> getAccountFullData ctx u = Some fd \<and>
                knownDebtor (display fd))))"
proof (intro conjI impI)
  assume "parseCoinUri ctx coinUri = Inr (l, d) \<and> getAccountUri ctx d = Some u \<and>
    getAccountFullData ctx u = Some fd \<and> knownDebtor (display fd)"
  then show "createCreateAccountAction ctx i j coinUri = (i + 1, [ShowAccount u], Inr ())"
    by (simp add: createCreateAccountAction_def attempt_def)
next
  assume a: "\<exists>e \<in> set (fst (snd (createCreateAccountAction ctx i j coinUri))). isCreateCall e"
  show "\<exists>l d. parseCoinUri ctx coinUri = Inr (l, d) \<and>
         \<not> (\<exists>u fd. getAccountUri ctx d = Some u \<and> getAccountFullData ctx u = Some fd \<and>
                knownDebtor (display fd))"
  proof (cases "parseCoinUri ctx coinUri")
    case (Inl e)
    with a show ?thesis
      by (auto simp: createCreateAccountAction_def attempt_def split: option.splits)
  next
    case (Inr p)
    obtain l' d' where p: "p = (l', d')" by (cases p)
    show ?thesis
    proof (rule ccontr)
      assume "\<not> ?thesis"
      with Inr p obtain u' fd' where k: "getAccountUri ctx d' = Some u'"
        "getAccountFullData ctx u' = Some fd'" "knownDebtor (display fd')" by auto
      with Inr p have "createCreateAccountAction ctx i j coinUri = (i + 1, [ShowAccount u'], Inr ())"
        by (simp add: createCreateAccountAction_def attempt_def)
      with a show False by simp
    qed
  qed
qed

theorem createCreateAccountAction_known_debtor_witness:
  "parseCoinUri ctx1 ''d1'' = Inr (''info:d1'', ''d1'') \<and> getAccountUri ctx1 ''d1'' = Some ''acc1'' \<and>
   getAccountFullData ctx1 ''acc1'' = Some \<lparr> display = \<lparr> knownDebtor = True \<rparr> \<rparr> \<and>
   createCreateAccountAction ctx1 3 4 ''d1'' = (4, [ShowAccount ''acc1''], Inr ()) \<and>
   createCreateAccountAction ctx1 3 4 ''d2''
     = (4, [CallCreateCreateAccountAction ''info:d2'' ''d2'', ShowAction 7], Inr ())"
proof -
  have a: "parseCoinUri ctx1 ''d1'' = Inr (''info:d1'', ''d1'')"
    and b: "getAccountUri ctx1 ''d1'' = Some ''acc1''"
    and c: "getAccountFullData ctx1 ''acc1'' = Some \<lparr> display = \<lparr> knownDebtor = True \<rparr> \<rparr>"
    by (simp_all add: ctx1_def)
  have d: "createCreateAccountAction ctx1 3 4 ''d2''
     = (4, [CallCreateCreateAccountAction ''info:d2'' ''d2'', ShowAction 7], Inr ())"
    by (simp add: createCreateAccountAction_def attempt_def ctx1_def)
  from createCreateAccountAction_known_debtor
    [of ctx1 "''d1''" "''info:d1''" "''d1''" "''acc1''" "\<lparr> display = \<lparr> knownDebtor = True \<rparr> \<rparr>" 3 4]
    a b c d
  show ?thesis by simp
qed

section \<open>Properties of \<open>resetPin\<close>\<close>










section \<open>Properties of \<open>executeReadyTasks\<close>\<close>










end
